theory Spec2Isabelle
  imports Main
begin

section \<open>The schema of server/models.py\<close>

text \<open>
  The source file is declarative: it declares four mapped classes, one association table,
  six relationships and two association proxies. Its behaviour is what the object-relational
  mapper and the database do with these declarations. The embedding therefore has two layers:
  \<^item> the declarations, written as data, one definition per declaration of the source;
  \<^item> the operations of a unit of work (insert, update, delete, collection append and
    remove, each followed by a commit) on a store of committed rows. Every operation
    consults the declarations: the cascade of a relationship, the secondary table of a
    relationship, whether a column is nullable or a primary key.
  The store is the database the application runs on, with its settings as the source
  leaves them. It enforces primary keys and NOT NULL; a violated constraint is the error
  \<open>IntegrityError\<close> and the commit is rolled back, so the store is the one before the
  operation. It does not enforce the foreign keys: the source declares them, and nothing in
  it turns their enforcement on. The declarations keep their \<open>foreign_key\<close>; no
  operation consults it.

  Each operation is one unit of work: the objects are loaded by their identifier, the
  collection or the session is changed, and the session is committed. An operation whose
  own object does not exist has nothing to act on and is the error \<open>NotFound\<close>.
\<close>

subsection \<open>Columns\<close>

text \<open>
  \<open>db.Column(type, db.ForeignKey(target), primary_key=...)\<close>. A column is nullable unless
  it is part of the primary key (no column of the source passes \<open>nullable\<close>).
\<close>

record column =
  foreign_key :: "string option"
  primary_key :: bool
  nullable :: bool

definition Column :: "string option \<Rightarrow> bool \<Rightarrow> column" where
  "Column fk pk = \<lparr>foreign_key = fk, primary_key = pk, nullable = \<not> pk\<rparr>"

text \<open>The columns of \<open>employees_meetings\<close> (lines 48 to 55).\<close>

definition employees_meetings_employee_id :: column where
  "employees_meetings_employee_id = Column (Some ''employees.id'') True"

definition employees_meetings_meeting_id :: column where
  "employees_meetings_meeting_id = Column (Some ''meetings.id'') True"

text \<open>The foreign-key columns of \<open>assignments\<close> (lines 123 to 126).\<close>

definition assignments_employee_id :: column where
  "assignments_employee_id = Column (Some ''employees.id'') False"

definition assignments_project_id :: column where
  "assignments_project_id = Column (Some ''projects.id'') False"

subsection \<open>Rows\<close>

type_synonym date = "nat \<times> nat \<times> nat"
type_synonym datetime = "date \<times> nat \<times> nat \<times> nat"

record Employee =
  Employee_id :: int
  name :: "string option"
  hire_date :: "date option"

record Meeting =
  Meeting_id :: int
  topic :: "string option"
  scheduled_time :: "datetime option"
  location :: "string option"

record Project =
  Project_id :: int
  title :: "string option"
  budget :: "int option"

record Assignment =
  Assignment_id :: int
  role :: "string option"
  start_date :: "datetime option"
  end_date :: "datetime option"
  employee_id :: "int option"
  project_id :: "int option"

text \<open>
  The store: one list of rows per table, in insertion order. A row of
  \<open>employees_meetings\<close> is the pair \<open>(employee_id, meeting_id)\<close>.
\<close>

record store =
  employees :: "Employee list"
  meetings :: "Meeting list"
  projects :: "Project list"
  assignments :: "Assignment list"
  employees_meetings :: "(int \<times> int) list"

definition empty_store :: store where
  "empty_store = \<lparr>employees = [], meetings = [], projects = [], assignments = [],
     employees_meetings = []\<rparr>"

datatype error = IntegrityError | NotFound | ValueError | OverflowError

subsection \<open>Relationships\<close>

text \<open>
  \<open>db.relationship(argument, secondary=..., back_populates=..., cascade=...)\<close>. The
  cascade is the list of the comma-separated names of the source's string; a relationship
  declared without one has the mapper's default, \<open>save-update, merge\<close>.
\<close>

record relationship =
  argument :: string
  secondary :: "string option"
  back_populates :: string
  cascade :: "string list"

definition default_cascade :: "string list" where
  "default_cascade = [''save-update'', ''merge'']"

definition Employee_meetings_rel :: relationship where
  "Employee_meetings_rel = \<lparr>argument = ''Meeting'', secondary = Some ''employees_meetings'',
     back_populates = ''employees'', cascade = default_cascade\<rparr>"

definition Employee_assignments_rel :: relationship where
  "Employee_assignments_rel = \<lparr>argument = ''Assignment'', secondary = None,
     back_populates = ''employee'', cascade = [''all'', ''delete-orphan'']\<rparr>"

definition Meeting_employees_rel :: relationship where
  "Meeting_employees_rel = \<lparr>argument = ''Employee'', secondary = Some ''employees_meetings'',
     back_populates = ''meetings'', cascade = default_cascade\<rparr>"

definition Project_assignments_rel :: relationship where
  "Project_assignments_rel = \<lparr>argument = ''Assignment'', secondary = None,
     back_populates = ''project'', cascade = [''all'', ''delete-orphan'']\<rparr>"

definition Assignment_employee_rel :: relationship where
  "Assignment_employee_rel = \<lparr>argument = ''Employee'', secondary = None,
     back_populates = ''assignments'', cascade = default_cascade\<rparr>"

definition Assignment_project_rel :: relationship where
  "Assignment_project_rel = \<lparr>argument = ''Project'', secondary = None,
     back_populates = ''assignments'', cascade = default_cascade\<rparr>"

text \<open>\<open>all\<close> stands for every cascade except \<open>delete-orphan\<close>.\<close>

definition cascade_options :: "string list \<Rightarrow> string list" where
  "cascade_options c =
     (if ''all'' \<in> set c
      then [''save-update'', ''merge'', ''refresh-expire'', ''expunge'', ''delete'']
      else []) @ filter (\<lambda>x. x \<noteq> ''all'') c"

definition cascade_delete :: "relationship \<Rightarrow> bool" where
  "cascade_delete r = (''delete'' \<in> set (cascade_options (cascade r)))"

definition cascade_delete_orphan :: "relationship \<Rightarrow> bool" where
  "cascade_delete_orphan r = (''delete-orphan'' \<in> set (cascade_options (cascade r)))"

section \<open>The store's constraints\<close>

text \<open>The identifier the store assigns to a new row: one more than the largest in use.\<close>

definition next_id :: "int list \<Rightarrow> int" where
  "next_id ids = fold max ids 0 + 1"

text \<open>NOT NULL, for one column and one value written to it.\<close>

definition null_ok :: "column \<Rightarrow> int option \<Rightarrow> bool" where
  "null_ok c v = (nullable c \<or> v \<noteq> None)"

text \<open>
  The integers a column of type \<open>db.Integer\<close> can hold: a value outside this range
  cannot be handed to the store and raises \<open>OverflowError\<close>.
\<close>

definition integer_ok :: "int option \<Rightarrow> bool" where
  "integer_ok v = (case v of None \<Rightarrow> True | Some i \<Rightarrow> - (2 ^ 63) \<le> i \<and> i < 2 ^ 63)"

definition employee_ids :: "store \<Rightarrow> int list" where
  "employee_ids s = map Employee_id (employees s)"

definition meeting_ids :: "store \<Rightarrow> int list" where
  "meeting_ids s = map Meeting_id (meetings s)"

definition project_ids :: "store \<Rightarrow> int list" where
  "project_ids s = map Project_id (projects s)"

definition assignment_ids :: "store \<Rightarrow> int list" where
  "assignment_ids s = map Assignment_id (assignments s)"

text \<open>The check of a row written to \<open>assignments\<close>.\<close>

definition assignment_ok :: "Assignment \<Rightarrow> bool" where
  "assignment_ok a =
     (null_ok assignments_employee_id (employee_id a) \<and>
      null_ok assignments_project_id (project_id a))"

text \<open>
  The check of a row written to \<open>employees_meetings\<close>: both columns are the primary
  key, so the pair is unique.
\<close>

definition employees_meetings_ok :: "store \<Rightarrow> int \<times> int \<Rightarrow> bool" where
  "employees_meetings_ok s r =
     (primary_key employees_meetings_employee_id \<and> primary_key employees_meetings_meeting_id
        \<longrightarrow> r \<notin> set (employees_meetings s))"

section \<open>Reading\<close>

definition get_employee :: "store \<Rightarrow> int \<Rightarrow> Employee option" where
  "get_employee s k = find (\<lambda>e. Employee_id e = k) (employees s)"

definition get_meeting :: "store \<Rightarrow> int \<Rightarrow> Meeting option" where
  "get_meeting s k = find (\<lambda>m. Meeting_id m = k) (meetings s)"

definition get_project :: "store \<Rightarrow> int \<Rightarrow> Project option" where
  "get_project s k = find (\<lambda>p. Project_id p = k) (projects s)"

definition get_assignment :: "store \<Rightarrow> int \<Rightarrow> Assignment option" where
  "get_assignment s k = find (\<lambda>a. Assignment_id a = k) (assignments s)"

text \<open>
  \<open>Employee.assignments\<close> and \<open>Project.assignments\<close>: the rows of \<open>assignments\<close> whose
  foreign key is the parent's identifier. \<open>Assignment.employee\<close> and
  \<open>Assignment.project\<close>: the parent the foreign key refers to, \<open>None\<close> when it is NULL.
\<close>

definition Employee_assignments :: "store \<Rightarrow> int \<Rightarrow> Assignment list" where
  "Employee_assignments s k = filter (\<lambda>a. employee_id a = Some k) (assignments s)"

definition Project_assignments :: "store \<Rightarrow> int \<Rightarrow> Assignment list" where
  "Project_assignments s k = filter (\<lambda>a. project_id a = Some k) (assignments s)"

definition Assignment_employee :: "store \<Rightarrow> Assignment \<Rightarrow> Employee option" where
  "Assignment_employee s a =
     (case employee_id a of None \<Rightarrow> None | Some k \<Rightarrow> get_employee s k)"

definition Assignment_project :: "store \<Rightarrow> Assignment \<Rightarrow> Project option" where
  "Assignment_project s a =
     (case project_id a of None \<Rightarrow> None | Some k \<Rightarrow> get_project s k)"

text \<open>
  The association proxies (lines 73 and 107):
  \<open>association_proxy('assignments', 'project')\<close> is the list of the \<open>project\<close> of each
  element of \<open>assignments\<close>, and likewise for \<open>employee\<close>.
\<close>

definition Employee_projects :: "store \<Rightarrow> int \<Rightarrow> Project option list" where
  "Employee_projects s k = map (Assignment_project s) (Employee_assignments s k)"

definition Project_employees :: "store \<Rightarrow> int \<Rightarrow> Employee option list" where
  "Project_employees s k = map (Assignment_employee s) (Project_assignments s k)"

text \<open>
  \<open>Employee.meetings\<close> and \<open>Meeting.employees\<close>: the join through the secondary table.
  The query has no ORDER BY, so the collection is read without an order.
\<close>

definition Employee_meetings :: "store \<Rightarrow> int \<Rightarrow> Meeting set" where
  "Employee_meetings s k =
     set (filter (\<lambda>m. (k, Meeting_id m) \<in> set (employees_meetings s)) (meetings s))"

definition Meeting_employees :: "store \<Rightarrow> int \<Rightarrow> Employee set" where
  "Meeting_employees s k =
     set (filter (\<lambda>e. (Employee_id e, k) \<in> set (employees_meetings s)) (employees s))"

section \<open>Writing\<close>

subsection \<open>Insert\<close>

definition create_employee :: "store \<Rightarrow> string option \<Rightarrow> date option \<Rightarrow> error + store" where
  "create_employee s n h =
     Inr (s\<lparr>employees := employees s @
       [\<lparr>Employee_id = next_id (employee_ids s), name = n, hire_date = h\<rparr>]\<rparr>)"

definition create_meeting ::
  "store \<Rightarrow> string option \<Rightarrow> datetime option \<Rightarrow> string option \<Rightarrow> error + store" where
  "create_meeting s t w l =
     Inr (s\<lparr>meetings := meetings s @
       [\<lparr>Meeting_id = next_id (meeting_ids s), topic = t, scheduled_time = w,
         location = l\<rparr>]\<rparr>)"

definition create_project :: "store \<Rightarrow> string option \<Rightarrow> int option \<Rightarrow> error + store" where
  "create_project s t b =
     (if \<not> integer_ok b then Inl OverflowError
      else Inr (s\<lparr>projects := projects s @
        [\<lparr>Project_id = next_id (project_ids s), title = t, budget = b\<rparr>]\<rparr>))"

text \<open>
  A transient \<open>Assignment\<close>, as the constructor \<open>Assignment(...)\<close> returns it: it has no
  identifier yet. \<open>employee\<close> and \<open>project\<close> are its two relationship attributes, held as
  the identifier of the parent object; the flush copies them to the foreign-key columns.
\<close>

record Assignment_transient =
  new_role :: "string option"
  new_start_date :: "datetime option"
  new_end_date :: "datetime option"
  employee :: "int option"
  project :: "int option"

definition Assignment_new :: Assignment_transient where
  "Assignment_new = \<lparr>new_role = None, new_start_date = None, new_end_date = None,
     employee = None, project = None\<rparr>"

definition insert_assignment :: "store \<Rightarrow> Assignment_transient \<Rightarrow> error + store" where
  "insert_assignment s t =
     (let a = \<lparr>Assignment_id = next_id (assignment_ids s), role = new_role t,
                start_date = new_start_date t, end_date = new_end_date t,
                employee_id = employee t, project_id = project t\<rparr>
      in if assignment_ok a then Inr (s\<lparr>assignments := assignments s @ [a]\<rparr>)
         else Inl IntegrityError)"

text \<open>
  \<open>db.session.add(Assignment(role=r, start_date=b, end_date=e, employee_id=k,
  project_id=p)); db.session.commit()\<close>. The two keys are stored as they are given,
  whether or not a row has them as its identifier. They are taken to lie in the range of
  the column type, as every identifier the store assigns does.
\<close>

definition create_assignment ::
  "store \<Rightarrow> string option \<Rightarrow> datetime option \<Rightarrow> datetime option \<Rightarrow> int option \<Rightarrow> int option
     \<Rightarrow> error + store" where
  "create_assignment s r b e k p =
     insert_assignment s \<lparr>new_role = r, new_start_date = b, new_end_date = e,
       employee = k, project = p\<rparr>"

text \<open>A row written to the association table itself.\<close>

definition insert_employees_meetings :: "store \<Rightarrow> int \<times> int \<Rightarrow> error + store" where
  "insert_employees_meetings s r =
     (if employees_meetings_ok s r
      then Inr (s\<lparr>employees_meetings := employees_meetings s @ [r]\<rparr>)
      else Inl IntegrityError)"

subsection \<open>Update\<close>

text \<open>
  The columns of a row are assigned and the session is committed; the identifier is not
  changed. The foreign-key columns of an assignment are columns like the others.
\<close>

definition update_employee ::
  "store \<Rightarrow> int \<Rightarrow> string option \<Rightarrow> date option \<Rightarrow> error + store" where
  "update_employee s k n h =
     (if k \<notin> set (employee_ids s) then Inl NotFound
      else Inr (s\<lparr>employees :=
        map (\<lambda>e. if Employee_id e = k then e\<lparr>name := n, hire_date := h\<rparr> else e)
          (employees s)\<rparr>))"

definition update_meeting ::
  "store \<Rightarrow> int \<Rightarrow> string option \<Rightarrow> datetime option \<Rightarrow> string option \<Rightarrow> error + store" where
  "update_meeting s k t w l =
     (if k \<notin> set (meeting_ids s) then Inl NotFound
      else Inr (s\<lparr>meetings :=
        map (\<lambda>m. if Meeting_id m = k
                  then m\<lparr>topic := t, scheduled_time := w, location := l\<rparr> else m)
          (meetings s)\<rparr>))"

definition update_project ::
  "store \<Rightarrow> int \<Rightarrow> string option \<Rightarrow> int option \<Rightarrow> error + store" where
  "update_project s k t b =
     (if k \<notin> set (project_ids s) then Inl NotFound
      else if \<not> integer_ok b then Inl OverflowError
      else Inr (s\<lparr>projects :=
        map (\<lambda>p. if Project_id p = k then p\<lparr>title := t, budget := b\<rparr> else p)
          (projects s)\<rparr>))"

definition update_assignment ::
  "store \<Rightarrow> int \<Rightarrow> string option \<Rightarrow> datetime option \<Rightarrow> datetime option \<Rightarrow> int option
     \<Rightarrow> int option \<Rightarrow> error + store" where
  "update_assignment s k r b e ek pk =
     (if k \<notin> set (assignment_ids s) then Inl NotFound
      else let a = \<lparr>Assignment_id = k, role = r, start_date = b, end_date = e,
                     employee_id = ek, project_id = pk\<rparr>
           in if assignment_ok a
              then Inr (s\<lparr>assignments :=
                     map (\<lambda>x. if Assignment_id x = k then a else x) (assignments s)\<rparr>)
              else Inl IntegrityError)"

subsection \<open>Delete\<close>

text \<open>
  What the unit of work does to the children of a one-to-many relationship when the parent
  with identifier \<open>k\<close> is deleted: with the \<open>delete\<close> cascade the children are deleted
  too; without it their foreign key is set to NULL, which the column must allow.
\<close>

definition on_parent_delete ::
  "relationship \<Rightarrow> column \<Rightarrow> (Assignment \<Rightarrow> int option) \<Rightarrow> (Assignment \<Rightarrow> Assignment) \<Rightarrow> int
     \<Rightarrow> Assignment list \<Rightarrow> error + Assignment list" where
  "on_parent_delete r c fk nullify k rows =
     (if cascade_delete r then Inr (filter (\<lambda>a. fk a \<noteq> Some k) rows)
      else if nullable c \<or> Some k \<notin> set (map fk rows)
      then Inr (map (\<lambda>a. if fk a = Some k then nullify a else a) rows)
      else Inl IntegrityError)"

text \<open>
  A relationship with a \<open>secondary\<close> table: the rows of that table that hold the deleted
  parent's identifier are deleted with it.
\<close>

definition on_parent_delete_secondary ::
  "relationship \<Rightarrow> (int \<times> int \<Rightarrow> int) \<Rightarrow> int \<Rightarrow> (int \<times> int) list \<Rightarrow> (int \<times> int) list" where
  "on_parent_delete_secondary r col k rows =
     (case secondary r of None \<Rightarrow> rows | Some t \<Rightarrow> filter (\<lambda>row. col row \<noteq> k) rows)"

text \<open>\<open>db.session.delete(employee); db.session.commit()\<close>\<close>

definition delete_employee :: "store \<Rightarrow> int \<Rightarrow> error + store" where
  "delete_employee s k =
     (if k \<notin> set (employee_ids s) then Inl NotFound
      else case on_parent_delete Employee_assignments_rel assignments_employee_id employee_id
                  (\<lambda>a. a\<lparr>employee_id := None\<rparr>) k (assignments s) of
             Inl e \<Rightarrow> Inl e
           | Inr rows \<Rightarrow>
               Inr (s\<lparr>employees := filter (\<lambda>e. Employee_id e \<noteq> k) (employees s),
                      assignments := rows,
                      employees_meetings :=
                        on_parent_delete_secondary Employee_meetings_rel fst k
                          (employees_meetings s)\<rparr>))"

text \<open>\<open>db.session.delete(project); db.session.commit()\<close>\<close>

definition delete_project :: "store \<Rightarrow> int \<Rightarrow> error + store" where
  "delete_project s k =
     (if k \<notin> set (project_ids s) then Inl NotFound
      else case on_parent_delete Project_assignments_rel assignments_project_id project_id
                  (\<lambda>a. a\<lparr>project_id := None\<rparr>) k (assignments s) of
             Inl e \<Rightarrow> Inl e
           | Inr rows \<Rightarrow>
               Inr (s\<lparr>projects := filter (\<lambda>p. Project_id p \<noteq> k) (projects s),
                      assignments := rows\<rparr>))"

text \<open>\<open>db.session.delete(meeting); db.session.commit()\<close>\<close>

definition delete_meeting :: "store \<Rightarrow> int \<Rightarrow> error + store" where
  "delete_meeting s k =
     (if k \<notin> set (meeting_ids s) then Inl NotFound
      else Inr (s\<lparr>meetings := filter (\<lambda>m. Meeting_id m \<noteq> k) (meetings s),
                  employees_meetings :=
                    on_parent_delete_secondary Meeting_employees_rel snd k
                      (employees_meetings s)\<rparr>))"

text \<open>
  \<open>db.session.delete(assignment); db.session.commit()\<close>. The relationships of
  \<open>Assignment\<close> have no \<open>delete\<close> cascade and no table refers to \<open>assignments\<close>.
\<close>

definition delete_assignment :: "store \<Rightarrow> int \<Rightarrow> error + store" where
  "delete_assignment s k =
     (if k \<notin> set (assignment_ids s) then Inl NotFound
      else Inr (s\<lparr>assignments := filter (\<lambda>a. Assignment_id a \<noteq> k) (assignments s)\<rparr>))"

subsection \<open>Appending to the association proxies\<close>

text \<open>
  The two \<open>creator\<close> functions (lines 74 and 108):
  \<open>lambda project_obj: Assignment(project=project_obj)\<close> and
  \<open>lambda employee_obj: Assignment(employee=employee_obj)\<close>. The argument is whatever
  is appended: an object of the store, or \<open>None\<close>.
\<close>

definition Employee_projects_creator :: "Project option \<Rightarrow> Assignment_transient" where
  "Employee_projects_creator project_obj =
     Assignment_new\<lparr>project := map_option Project_id project_obj\<rparr>"

definition Project_employees_creator :: "Employee option \<Rightarrow> Assignment_transient" where
  "Project_employees_creator employee_obj =
     Assignment_new\<lparr>employee := map_option Employee_id employee_obj\<rparr>"

text \<open>
  \<open>employee.projects.append(project); db.session.commit()\<close>, for the employee with
  identifier \<open>k\<close> and for \<open>project\<close> what the lookup of the identifier \<open>p\<close> returns,
  which is \<open>None\<close> when no project has it. The proxy appends \<open>creator(project)\<close> to
  \<open>employee.assignments\<close>; \<open>back_populates\<close> sets the new object's \<open>employee\<close>; the
  commit inserts it. Nothing checks what is appended.
\<close>

definition Employee_projects_append :: "store \<Rightarrow> int \<Rightarrow> int \<Rightarrow> error + store" where
  "Employee_projects_append s k p =
     (case get_employee s k of None \<Rightarrow> Inl NotFound
      | Some employee_obj \<Rightarrow>
          insert_assignment s
            ((Employee_projects_creator (get_project s p))
               \<lparr>employee := Some (Employee_id employee_obj)\<rparr>))"

text \<open>\<open>project.employees.append(employee); db.session.commit()\<close>\<close>

definition Project_employees_append :: "store \<Rightarrow> int \<Rightarrow> int \<Rightarrow> error + store" where
  "Project_employees_append s p k =
     (case get_project s p of None \<Rightarrow> Inl NotFound
      | Some project_obj \<Rightarrow>
          insert_assignment s
            ((Project_employees_creator (get_employee s k))
               \<lparr>project := Some (Project_id project_obj)\<rparr>))"

subsection \<open>Removing from the one-to-many collections and from the proxies\<close>

text \<open>
  What the unit of work does to a child removed from its parent's collection: with the
  \<open>delete-orphan\<close> cascade the child is deleted; without it its foreign key is set to
  NULL.
\<close>

definition on_collection_remove ::
  "relationship \<Rightarrow> column \<Rightarrow> (Assignment \<Rightarrow> Assignment) \<Rightarrow> int \<Rightarrow> Assignment list
     \<Rightarrow> error + Assignment list" where
  "on_collection_remove r c nullify k rows =
     (if cascade_delete_orphan r then Inr (filter (\<lambda>a. Assignment_id a \<noteq> k) rows)
      else if nullable c
      then Inr (map (\<lambda>a. if Assignment_id a = k then nullify a else a) rows)
      else Inl IntegrityError)"

text \<open>
  \<open>employee.assignments.remove(assignment); db.session.commit()\<close>: \<open>list.remove\<close> raises
  \<open>ValueError\<close> when the assignment is not in the collection.
\<close>

definition Employee_assignments_remove :: "store \<Rightarrow> int \<Rightarrow> int \<Rightarrow> error + store" where
  "Employee_assignments_remove s k a =
     (if k \<notin> set (employee_ids s) then Inl NotFound
      else if a \<notin> set (map Assignment_id (Employee_assignments s k)) then Inl ValueError
      else case on_collection_remove Employee_assignments_rel assignments_employee_id
                  (\<lambda>a. a\<lparr>employee_id := None\<rparr>) a (assignments s) of
             Inl e \<Rightarrow> Inl e
           | Inr rows \<Rightarrow> Inr (s\<lparr>assignments := rows\<rparr>))"

definition Project_assignments_remove :: "store \<Rightarrow> int \<Rightarrow> int \<Rightarrow> error + store" where
  "Project_assignments_remove s k a =
     (if k \<notin> set (project_ids s) then Inl NotFound
      else if a \<notin> set (map Assignment_id (Project_assignments s k)) then Inl ValueError
      else case on_collection_remove Project_assignments_rel assignments_project_id
                  (\<lambda>a. a\<lparr>project_id := None\<rparr>) a (assignments s) of
             Inl e \<Rightarrow> Inl e
           | Inr rows \<Rightarrow> Inr (s\<lparr>assignments := rows\<rparr>))"

text \<open>
  \<open>employee.projects.remove(project); db.session.commit()\<close>, for \<open>project\<close> what the
  lookup of the identifier \<open>p\<close> returns: the proxy removes from \<open>employee.assignments\<close>
  the first element whose \<open>project\<close> equals the given one, and raises \<open>ValueError\<close> when
  there is none.
\<close>

definition Employee_projects_remove :: "store \<Rightarrow> int \<Rightarrow> int \<Rightarrow> error + store" where
  "Employee_projects_remove s k p =
     (if k \<notin> set (employee_ids s) then Inl NotFound
      else case find (\<lambda>a. Assignment_project s a = get_project s p)
                  (Employee_assignments s k) of
             None \<Rightarrow> Inl ValueError
           | Some a \<Rightarrow> Employee_assignments_remove s k (Assignment_id a))"

definition Project_employees_remove :: "store \<Rightarrow> int \<Rightarrow> int \<Rightarrow> error + store" where
  "Project_employees_remove s p k =
     (if p \<notin> set (project_ids s) then Inl NotFound
      else case find (\<lambda>a. Assignment_employee s a = get_employee s k)
                  (Project_assignments s p) of
             None \<Rightarrow> Inl ValueError
           | Some a \<Rightarrow> Project_assignments_remove s p (Assignment_id a))"

subsection \<open>The many-to-many collections\<close>

text \<open>
  \<open>employee.meetings.append(meeting); db.session.commit()\<close>. The unit of work inserts
  the association row of the pair; when the table already holds the pair the primary key
  rejects the row. A collection of this kind that holds \<open>None\<close> is refused when it is
  flushed, so appending what the lookup of a missing identifier returns is an error too.
\<close>

definition secondary_append ::
  "relationship \<Rightarrow> store \<Rightarrow> int \<times> int \<Rightarrow> error + store" where
  "secondary_append r s row =
     (case secondary r of None \<Rightarrow> Inr s | Some t \<Rightarrow> insert_employees_meetings s row)"

definition Employee_meetings_append :: "store \<Rightarrow> int \<Rightarrow> int \<Rightarrow> error + store" where
  "Employee_meetings_append s k m =
     (if k \<notin> set (employee_ids s) \<or> m \<notin> set (meeting_ids s) then Inl NotFound
      else secondary_append Employee_meetings_rel s (k, m))"

definition Meeting_employees_append :: "store \<Rightarrow> int \<Rightarrow> int \<Rightarrow> error + store" where
  "Meeting_employees_append s m k =
     (if m \<notin> set (meeting_ids s) \<or> k \<notin> set (employee_ids s) then Inl NotFound
      else secondary_append Meeting_employees_rel s (k, m))"

text \<open>
  \<open>employee.meetings.remove(meeting); db.session.commit()\<close>: the association row is
  deleted, the meeting is not (no \<open>delete\<close> cascade on the relationship).
\<close>

definition secondary_remove ::
  "relationship \<Rightarrow> store \<Rightarrow> int \<times> int \<Rightarrow> error + store" where
  "secondary_remove r s row =
     (if row \<notin> set (employees_meetings s) then Inl ValueError
      else case secondary r of None \<Rightarrow> Inr s
           | Some t \<Rightarrow>
               Inr (s\<lparr>employees_meetings := filter (\<lambda>x. x \<noteq> row) (employees_meetings s)\<rparr>))"

definition Employee_meetings_remove :: "store \<Rightarrow> int \<Rightarrow> int \<Rightarrow> error + store" where
  "Employee_meetings_remove s k m =
     (if k \<notin> set (employee_ids s) \<or> m \<notin> set (meeting_ids s) then Inl NotFound
      else secondary_remove Employee_meetings_rel s (k, m))"

definition Meeting_employees_remove :: "store \<Rightarrow> int \<Rightarrow> int \<Rightarrow> error + store" where
  "Meeting_employees_remove s m k =
     (if m \<notin> set (meeting_ids s) \<or> k \<notin> set (employee_ids s) then Inl NotFound
      else secondary_remove Meeting_employees_rel s (k, m))"

section \<open>Reachable stores\<close>

datatype operation =
    Create_employee "string option" "date option"
  | Create_meeting "string option" "datetime option" "string option"
  | Create_project "string option" "int option"
  | Create_assignment "string option" "datetime option" "datetime option" "int option"
      "int option"
  | Insert_employees_meetings int int
  | Update_employee int "string option" "date option"
  | Update_meeting int "string option" "datetime option" "string option"
  | Update_project int "string option" "int option"
  | Update_assignment int "string option" "datetime option" "datetime option" "int option"
      "int option"
  | Delete_employee int
  | Delete_meeting int
  | Delete_project int
  | Delete_assignment int
  | Append_Employee_projects int int
  | Append_Project_employees int int
  | Append_Employee_meetings int int
  | Append_Meeting_employees int int
  | Remove_Employee_assignments int int
  | Remove_Project_assignments int int
  | Remove_Employee_projects int int
  | Remove_Project_employees int int
  | Remove_Employee_meetings int int
  | Remove_Meeting_employees int int

fun apply_operation :: "store \<Rightarrow> operation \<Rightarrow> error + store" where
  "apply_operation s (Create_employee n h) = create_employee s n h"
| "apply_operation s (Create_meeting t w l) = create_meeting s t w l"
| "apply_operation s (Create_project t b) = create_project s t b"
| "apply_operation s (Create_assignment r b e k p) = create_assignment s r b e k p"
| "apply_operation s (Insert_employees_meetings k m) = insert_employees_meetings s (k, m)"
| "apply_operation s (Update_employee k n h) = update_employee s k n h"
| "apply_operation s (Update_meeting k t w l) = update_meeting s k t w l"
| "apply_operation s (Update_project k t b) = update_project s k t b"
| "apply_operation s (Update_assignment k r b e ek pk) = update_assignment s k r b e ek pk"
| "apply_operation s (Delete_employee k) = delete_employee s k"
| "apply_operation s (Delete_meeting k) = delete_meeting s k"
| "apply_operation s (Delete_project k) = delete_project s k"
| "apply_operation s (Delete_assignment k) = delete_assignment s k"
| "apply_operation s (Append_Employee_projects k p) = Employee_projects_append s k p"
| "apply_operation s (Append_Project_employees p k) = Project_employees_append s p k"
| "apply_operation s (Append_Employee_meetings k m) = Employee_meetings_append s k m"
| "apply_operation s (Append_Meeting_employees m k) = Meeting_employees_append s m k"
| "apply_operation s (Remove_Employee_assignments k a) = Employee_assignments_remove s k a"
| "apply_operation s (Remove_Project_assignments k a) = Project_assignments_remove s k a"
| "apply_operation s (Remove_Employee_projects k p) = Employee_projects_remove s k p"
| "apply_operation s (Remove_Project_employees p k) = Project_employees_remove s p k"
| "apply_operation s (Remove_Employee_meetings k m) = Employee_meetings_remove s k m"
| "apply_operation s (Remove_Meeting_employees m k) = Meeting_employees_remove s m k"

text \<open>
  The store after a commit: an operation that fails is rolled back. A store is reachable
  when a sequence of operations leads to it from the empty store.
\<close>

definition commit :: "store \<Rightarrow> operation \<Rightarrow> store" where
  "commit s x = (case apply_operation s x of Inl e \<Rightarrow> s | Inr s' \<Rightarrow> s')"

definition run :: "operation list \<Rightarrow> store" where
  "run xs = fold (\<lambda>x s. commit s x) xs empty_store"

inductive reachable :: "store \<Rightarrow> bool" where
  reachable_empty: "reachable empty_store"
| reachable_commit: "reachable s \<Longrightarrow> reachable (commit s x)"

text \<open>
  Two operations write the foreign keys of an assignment as the caller gives them:
  creating an assignment and updating one. \<open>direct_keys_resolve\<close> holds of such an
  operation when each key it writes is NULL or the identifier of a row of the store, and of
  every other operation. \<open>reachable_resolving\<close> are the stores reached by operations of
  which it holds.
\<close>

definition resolves :: "store \<Rightarrow> int option \<Rightarrow> int option \<Rightarrow> bool" where
  "resolves s k p =
     (set_option k \<subseteq> set (employee_ids s) \<and> set_option p \<subseteq> set (project_ids s))"

fun direct_keys_resolve :: "store \<Rightarrow> operation \<Rightarrow> bool" where
  "direct_keys_resolve s (Create_assignment r b e k p) = resolves s k p"
| "direct_keys_resolve s (Update_assignment a r b e k p) = resolves s k p"
| "direct_keys_resolve s x = True"

inductive reachable_resolving :: "store \<Rightarrow> bool" where
  resolving_empty: "reachable_resolving empty_store"
| resolving_commit:
    "reachable_resolving s \<Longrightarrow> direct_keys_resolve s x \<Longrightarrow> reachable_resolving (commit s x)"

section \<open>Example stores\<close>

text \<open>
  One employee, one project and one meeting, each with identifier 1, and nothing that
  links them.
\<close>

definition John_Doe :: Employee where
  "John_Doe = \<lparr>Employee_id = 1, name = Some ''John Doe'', hire_date = Some (2022, 1, 1)\<rparr>"

definition Kickoff :: Project where
  "Kickoff = \<lparr>Project_id = 1, title = Some ''Kickoff'', budget = Some 10000\<rparr>"

definition Standup :: Meeting where
  "Standup = \<lparr>Meeting_id = 1, topic = Some ''Standup'',
     scheduled_time = Some ((2024, 5, 24), 10, 0, 0), location = Some ''Room A''\<rparr>"

definition example_store :: store where
  "example_store = \<lparr>employees = [John_Doe], meetings = [Standup], projects = [Kickoff],
     assignments = [], employees_meetings = []\<rparr>"

text \<open>The same store with one assignment and one association row that link them.\<close>

definition linked_store :: store where
  "linked_store = example_store\<lparr>
     assignments := [\<lparr>Assignment_id = 1, role = None, start_date = None, end_date = None,
       employee_id = Some 1, project_id = Some 1\<rparr>],
     employees_meetings := [(1, 1)]\<rparr>"

text \<open>The operations that build the two stores from the empty one.\<close>

definition example_history :: "operation list" where
  "example_history =
     [Create_employee (Some ''John Doe'') (Some (2022, 1, 1)),
      Create_meeting (Some ''Standup'') (Some ((2024, 5, 24), 10, 0, 0)) (Some ''Room A''),
      Create_project (Some ''Kickoff'') (Some 10000)]"

definition linked_history :: "operation list" where
  "linked_history =
     example_history @ [Append_Employee_projects 1 1, Append_Employee_meetings 1 1]"

section \<open>Properties of the declarations and of the identifiers\<close>

lemma fold_max_ge: "a \<le> fold max ids (a::int)"
proof (induction ids arbitrary: a)
  case Nil
  then show ?case by simp
next
  case (Cons x xs)
  have "a \<le> max x a" by simp
  also have "max x a \<le> fold max xs (max x a)" by (rule Cons.IH)
  finally show ?case by simp
qed

lemma fold_max_mem: "i \<in> set ids \<Longrightarrow> i \<le> fold max ids (a::int)"
proof (induction ids arbitrary: a)
  case Nil
  then show ?case by simp
next
  case (Cons x xs)
  show ?case
  proof (cases "i = x")
    case True
    have "max x a \<le> fold max xs (max x a)" by (rule fold_max_ge)
    with True show ?thesis by simp
  next
    case False
    with Cons show ?thesis by simp
  qed
qed

lemma next_id_fresh: "next_id ids \<notin> set ids"
proof
  assume "next_id ids \<in> set ids"
  then have "next_id ids \<le> fold max ids 0" by (rule fold_max_mem)
  then show False by (simp add: next_id_def)
qed

lemma schema_simps:
  "cascade_delete Employee_assignments_rel"
  "cascade_delete Project_assignments_rel"
  "cascade_delete_orphan Employee_assignments_rel"
  "cascade_delete_orphan Project_assignments_rel"
  "secondary Employee_meetings_rel = Some ''employees_meetings''"
  "secondary Meeting_employees_rel = Some ''employees_meetings''"
  "nullable assignments_employee_id"
  "nullable assignments_project_id"
  "foreign_key assignments_employee_id = Some ''employees.id''"
  "foreign_key assignments_project_id = Some ''projects.id''"
  "foreign_key employees_meetings_employee_id = Some ''employees.id''"
  "foreign_key employees_meetings_meeting_id = Some ''meetings.id''"
  "primary_key employees_meetings_employee_id"
  "primary_key employees_meetings_meeting_id"
  by (simp_all add: cascade_delete_def cascade_delete_orphan_def cascade_options_def
      Employee_assignments_rel_def Project_assignments_rel_def Employee_meetings_rel_def
      Meeting_employees_rel_def assignments_employee_id_def assignments_project_id_def
      employees_meetings_employee_id_def employees_meetings_meeting_id_def Column_def)

lemma get_employee_Some:
  "get_employee s k = Some E \<Longrightarrow> Employee_id E = k \<and> E \<in> set (employees s)"
  by (auto simp: get_employee_def find_Some_iff)

lemma get_project_Some:
  "get_project s k = Some P \<Longrightarrow> Project_id P = k \<and> P \<in> set (projects s)"
  by (auto simp: get_project_def find_Some_iff)

lemma insert_assignment_ok:
  "insert_assignment s t =
    Inr (s\<lparr>assignments := assignments s @
      [\<lparr>Assignment_id = next_id (assignment_ids s), role = new_role t,
        start_date = new_start_date t, end_date = new_end_date t,
        employee_id = employee t, project_id = project t\<rparr>]\<rparr>)"
  by (simp add: insert_assignment_def assignment_ok_def null_ok_def schema_simps Let_def)

lemma get_employee_mem:
  "k \<in> set (employee_ids s) \<Longrightarrow> \<exists>E. get_employee s k = Some E \<and> Employee_id E = k"
  by (cases "get_employee s k")
    (auto simp: get_employee_def employee_ids_def find_None_iff find_Some_iff)

lemma get_project_mem:
  "k \<in> set (project_ids s) \<Longrightarrow> \<exists>P. get_project s k = Some P \<and> Project_id P = k"
  by (cases "get_project s k")
    (auto simp: get_project_def project_ids_def find_None_iff find_Some_iff)

lemma Employee_projects_append_eq:
  assumes "k \<in> set (employee_ids s)" and "p \<in> set (project_ids s)"
  shows "Employee_projects_append s k p =
    Inr (s\<lparr>assignments := assignments s @
      [\<lparr>Assignment_id = next_id (assignment_ids s), role = None, start_date = None,
        end_date = None, employee_id = Some k, project_id = Some p\<rparr>]\<rparr>)"
proof -
  from assms(1) obtain E where "get_employee s k = Some E" "Employee_id E = k"
    using get_employee_mem by blast
  moreover from assms(2) obtain P where "get_project s p = Some P" "Project_id P = p"
    using get_project_mem by blast
  ultimately show ?thesis
    using assms
    by (simp add: Employee_projects_append_def Employee_projects_creator_def Assignment_new_def
        insert_assignment_ok)
qed

lemma Project_employees_append_eq:
  assumes "k \<in> set (employee_ids s)" and "p \<in> set (project_ids s)"
  shows "Project_employees_append s p k =
    Inr (s\<lparr>assignments := assignments s @
      [\<lparr>Assignment_id = next_id (assignment_ids s), role = None, start_date = None,
        end_date = None, employee_id = Some k, project_id = Some p\<rparr>]\<rparr>)"
proof -
  from assms(1) obtain E where "get_employee s k = Some E" "Employee_id E = k"
    using get_employee_mem by blast
  moreover from assms(2) obtain P where "get_project s p = Some P" "Project_id P = p"
    using get_project_mem by blast
  ultimately show ?thesis
    using assms
    by (simp add: Project_employees_append_def Project_employees_creator_def Assignment_new_def
        insert_assignment_ok)
qed

section \<open>The association proxies\<close>

text \<open>
  C1. For an employee \<open>E\<close> and a project \<open>P\<close> of the store, appending \<open>P\<close> to
  \<open>E.projects\<close> succeeds; afterwards \<open>E.projects\<close> contains \<open>P\<close> and \<open>P.employees\<close>
  contains \<open>E\<close>.
\<close>

theorem Employee_projects_append_views:
  assumes "get_employee s k = Some E" and "get_project s p = Some P"
  shows "\<exists>s'. Employee_projects_append s k p = Inr s' \<and>
           Some P \<in> set (Employee_projects s' k) \<and>
           Some E \<in> set (Project_employees s' p)"
proof -
  from assms(1) have E: "Employee_id E = k" "E \<in> set (employees s)"
    by (simp_all add: get_employee_Some)
  from assms(2) have P: "Project_id P = p" "P \<in> set (projects s)"
    by (simp_all add: get_project_Some)
  let ?a = "\<lparr>Assignment_id = next_id (assignment_ids s), role = None, start_date = None,
    end_date = None, employee_id = Some k, project_id = Some p\<rparr>"
  let ?s = "s\<lparr>assignments := assignments s @ [?a]\<rparr>"
  have "k \<in> set (employee_ids s)" "p \<in> set (project_ids s)"
    using E P by (force simp: employee_ids_def project_ids_def)+
  then have "Employee_projects_append s k p = Inr ?s"
    using assms E P
    by (simp add: Employee_projects_append_def Employee_projects_creator_def Assignment_new_def
        insert_assignment_ok)
  moreover have "Some P \<in> set (Employee_projects ?s k)"
    using assms(2)
    by (simp add: Employee_projects_def Employee_assignments_def Assignment_project_def
        get_project_def)
  moreover have "Some E \<in> set (Project_employees ?s p)"
    using assms(1)
    by (simp add: Project_employees_def Project_assignments_def Assignment_employee_def
        get_employee_def)
  ultimately show ?thesis by blast
qed

theorem Employee_projects_append_views_witness:
  "get_employee example_store 1 = Some John_Doe \<and>
   get_project example_store 1 = Some Kickoff \<and>
   (\<exists>s'. Employee_projects_append example_store 1 1 = Inr s' \<and>
      Some Kickoff \<in> set (Employee_projects s' 1) \<and>
      Some John_Doe \<in> set (Project_employees s' 1))"
proof -
  have E: "get_employee example_store 1 = Some John_Doe"
    by (simp add: get_employee_def example_store_def John_Doe_def)
  have P: "get_project example_store 1 = Some Kickoff"
    by (simp add: get_project_def example_store_def Kickoff_def)
  from E P Employee_projects_append_views [OF E P] show ?thesis by blast
qed

text \<open>
  C7. Appending a project to \<open>E.projects\<close>, or an employee to \<open>P.employees\<close>, adds one
  row with a new identifier at the end of \<open>assignments\<close> and leaves the rows before it
  as they were; appending the same pair a second time adds a second row.
\<close>

theorem proxy_append_never_mutates:
  assumes "k \<in> set (employee_ids s)" and "p \<in> set (project_ids s)"
  shows "\<exists>s1 s2 a1 a2.
           Employee_projects_append s k p = Inr s1 \<and>
           Employee_projects_append s1 k p = Inr s2 \<and>
           assignments s1 = assignments s @ [a1] \<and>
           assignments s2 = assignments s @ [a1, a2] \<and>
           Assignment_id a1 \<notin> set (assignment_ids s) \<and>
           Assignment_id a2 \<notin> set (assignment_ids s1) \<and>
           employee_id a1 = Some k \<and> project_id a1 = Some p \<and>
           employee_id a2 = Some k \<and> project_id a2 = Some p \<and>
           Project_employees_append s p k = Inr s1 \<and>
           Project_employees_append s1 p k = Inr s2"
proof -
  let ?a1 = "\<lparr>Assignment_id = next_id (assignment_ids s), role = None, start_date = None,
    end_date = None, employee_id = Some k, project_id = Some p\<rparr>"
  let ?s1 = "s\<lparr>assignments := assignments s @ [?a1]\<rparr>"
  let ?a2 = "\<lparr>Assignment_id = next_id (assignment_ids ?s1), role = None, start_date = None,
    end_date = None, employee_id = Some k, project_id = Some p\<rparr>"
  let ?s2 = "?s1\<lparr>assignments := assignments ?s1 @ [?a2]\<rparr>"
  have in1: "k \<in> set (employee_ids ?s1)" "p \<in> set (project_ids ?s1)"
    using assms by (simp_all add: employee_ids_def project_ids_def)
  have 1: "Employee_projects_append s k p = Inr ?s1"
    using assms by (rule Employee_projects_append_eq)
  have 2: "Employee_projects_append ?s1 k p = Inr ?s2"
    using in1 by (rule Employee_projects_append_eq)
  have 3: "Project_employees_append s p k = Inr ?s1"
    using assms by (rule Project_employees_append_eq)
  have 4: "Project_employees_append ?s1 p k = Inr ?s2"
    using in1 by (rule Project_employees_append_eq)
  have 5: "Assignment_id ?a1 \<notin> set (assignment_ids s)"
    by (simp add: next_id_fresh)
  have 6: "Assignment_id ?a2 \<notin> set (assignment_ids ?s1)"
    by (simp only: Assignment.select_convs next_id_fresh not_False_eq_True)
  have 7: "assignments ?s2 = assignments s @ [?a1, ?a2]" by simp
  have 8: "assignments ?s1 = assignments s @ [?a1]" by simp
  show ?thesis
    apply (rule exI [of _ ?s1], rule exI [of _ ?s2], rule exI [of _ ?a1], rule exI [of _ ?a2])
    apply (intro conjI)
    apply (rule 1, rule 2, rule 8, rule 7, rule 5, rule 6)
    apply (simp, simp, simp, simp)
    apply (rule 3, rule 4)
    done
qed

theorem proxy_append_never_mutates_witness:
  "1 \<in> set (employee_ids linked_store) \<and> 1 \<in> set (project_ids linked_store) \<and>
   (\<exists>s1 s2 a1 a2.
      Employee_projects_append linked_store 1 1 = Inr s1 \<and>
      Employee_projects_append s1 1 1 = Inr s2 \<and>
      assignments s1 = assignments linked_store @ [a1] \<and>
      assignments s2 = assignments linked_store @ [a1, a2] \<and>
      Assignment_id a1 \<notin> set (assignment_ids linked_store) \<and>
      Assignment_id a2 \<notin> set (assignment_ids s1) \<and>
      employee_id a1 = Some 1 \<and> project_id a1 = Some 1 \<and>
      employee_id a2 = Some 1 \<and> project_id a2 = Some 1 \<and>
      Project_employees_append linked_store 1 1 = Inr s1 \<and>
      Project_employees_append s1 1 1 = Inr s2)"
proof -
  have E: "1 \<in> set (employee_ids linked_store)"
    by (simp add: employee_ids_def linked_store_def example_store_def John_Doe_def)
  have P: "1 \<in> set (project_ids linked_store)"
    by (simp add: project_ids_def linked_store_def example_store_def Kickoff_def)
  from E P proxy_append_never_mutates [OF E P] show ?thesis by blast
qed

section \<open>Deleting a parent\<close>



text \<open>
  C5. Deleting a project of the store succeeds; it removes exactly the assignments whose
  \<open>project_id\<close> is the project's identifier and leaves the employees as they were.
\<close>

theorem delete_project_cascade:
  assumes "k \<in> set (project_ids s)"
  shows "\<exists>s'. delete_project s k = Inr s' \<and>
           assignments s' = filter (\<lambda>a. project_id a \<noteq> Some k) (assignments s) \<and>
           Some k \<notin> set (map project_id (assignments s')) \<and>
           k \<notin> set (project_ids s') \<and>
           employees s' = employees s"
  using assms
  by (auto simp: delete_project_def on_parent_delete_def schema_simps project_ids_def)

theorem delete_project_cascade_witness:
  "1 \<in> set (project_ids linked_store) \<and>
   (\<exists>s'. delete_project linked_store 1 = Inr s' \<and>
      assignments s' = filter (\<lambda>a. project_id a \<noteq> Some 1) (assignments linked_store) \<and>
      Some 1 \<notin> set (map project_id (assignments s')) \<and>
      1 \<notin> set (project_ids s') \<and>
      employees s' = employees linked_store)"
proof -
  have P: "1 \<in> set (project_ids linked_store)"
    by (simp add: project_ids_def linked_store_def example_store_def Kickoff_def)
  from P delete_project_cascade [OF P] show ?thesis by blast
qed



section \<open>Creating an assignment\<close>

text \<open>
  C10. The two foreign-key columns of \<open>assignments\<close> are nullable: creating an assignment
  with \<open>employee_id\<close>, \<open>project_id\<close> or both unset succeeds (the one that is set, if any,
  being the identifier of an existing row) and stores a row with these values.
\<close>

theorem nullable_foreign_keys:
  assumes "k = None \<or> p = None"
    and "set_option k \<subseteq> set (employee_ids s)"
    and "set_option p \<subseteq> set (project_ids s)"
  shows "nullable assignments_employee_id \<and> nullable assignments_project_id \<and>
         create_assignment s r b e k p =
           Inr (s\<lparr>assignments := assignments s @
             [\<lparr>Assignment_id = next_id (assignment_ids s), role = r, start_date = b,
               end_date = e, employee_id = k, project_id = p\<rparr>]\<rparr>)"
  by (simp add: create_assignment_def insert_assignment_ok schema_simps)

theorem nullable_foreign_keys_witness:
  "set_option None \<subseteq> set (employee_ids example_store) \<and>
   set_option (Some 1) \<subseteq> set (project_ids example_store) \<and>
   nullable assignments_employee_id \<and> nullable assignments_project_id \<and>
   create_assignment example_store (Some ''lead'') None None None (Some 1) =
     Inr (example_store\<lparr>assignments := assignments example_store @
       [\<lparr>Assignment_id = next_id (assignment_ids example_store), role = Some ''lead'',
         start_date = None, end_date = None, employee_id = None,
         project_id = Some 1\<rparr>]\<rparr>)"
proof -
  have 1: "(None :: int option) = None \<or> Some (1 :: int) = None" by simp
  have 2: "set_option None \<subseteq> set (employee_ids example_store)"
    by simp
  have 3: "set_option (Some 1) \<subseteq> set (project_ids example_store)"
    by (simp add: project_ids_def example_store_def Kickoff_def)
  from 2 3 nullable_foreign_keys [OF 1 2 3, of "Some ''lead''" None None]
  show ?thesis by blast
qed

text \<open>
  C4. Creating an assignment whose \<open>employee_id\<close> and \<open>project_id\<close> match no row is
  accepted: on the empty store, which has no employee and no project, the assignment with
  both keys NULL is stored, and the store after the commit is not the store before it.
\<close>

theorem null_foreign_key_accepted_counterexample:
  "employee_ids empty_store = [] \<and> project_ids empty_store = [] \<and>
   create_assignment empty_store None None None None None =
     Inr (empty_store\<lparr>assignments := [\<lparr>Assignment_id = 1, role = None, start_date = None,
       end_date = None, employee_id = None, project_id = None\<rparr>]\<rparr>) \<and>
   commit empty_store (Create_assignment None None None None None) \<noteq> empty_store"
  by (simp add: create_assignment_def insert_assignment_ok commit_def employee_ids_def
      project_ids_def assignment_ids_def next_id_def empty_store_def)

text \<open>
  C4, amended. An attempt to create an assignment whose \<open>employee_id\<close> or
  \<open>project_id\<close> is NULL, and so matches no row, does not fail: when each key that is set
  is the identifier of an existing row, no error is raised, and the store after the commit
  is the store before it with one more assignment, which has the keys given and a new
  identifier. (What becomes of a key that is set and matches no row is left open here.)
\<close>

theorem null_key_create_accepted:
  assumes "k = None \<or> p = None" and "resolves s k p"
  shows "apply_operation s (Create_assignment r b e k p) \<noteq> Inl IntegrityError \<and>
         (\<exists>a. commit s (Create_assignment r b e k p) =
                 s\<lparr>assignments := assignments s @ [a]\<rparr> \<and>
               employee_id a = k \<and> project_id a = p \<and>
               Assignment_id a \<notin> set (assignment_ids s)) \<and>
         commit s (Create_assignment r b e k p) \<noteq> s"
proof -
  let ?a = "\<lparr>Assignment_id = next_id (assignment_ids s), role = r, start_date = b,
    end_date = e, employee_id = k, project_id = p\<rparr>"
  have c: "create_assignment s r b e k p = Inr (s\<lparr>assignments := assignments s @ [?a]\<rparr>)"
    by (simp add: create_assignment_def insert_assignment_ok)
  then have 1: "commit s (Create_assignment r b e k p) = s\<lparr>assignments := assignments s @ [?a]\<rparr>"
    by (simp add: commit_def)
  have "assignments (s\<lparr>assignments := assignments s @ [?a]\<rparr>) \<noteq> assignments s" by simp
  then have 2: "s\<lparr>assignments := assignments s @ [?a]\<rparr> \<noteq> s" by metis
  have 3: "Assignment_id ?a \<notin> set (assignment_ids s)" by (simp add: next_id_fresh)
  from c 1 2 3 show ?thesis by auto
qed

theorem null_key_create_accepted_witness:
  "resolves example_store None (Some 1) \<and>
   apply_operation example_store (Create_assignment None None None None (Some 1))
     \<noteq> Inl IntegrityError \<and>
   (\<exists>a. commit example_store (Create_assignment None None None None (Some 1)) =
           example_store\<lparr>assignments := assignments example_store @ [a]\<rparr> \<and>
         employee_id a = None \<and> project_id a = Some 1 \<and>
         Assignment_id a \<notin> set (assignment_ids example_store)) \<and>
   commit example_store (Create_assignment None None None None (Some 1)) \<noteq> example_store"
proof -
  have 1: "(None :: int option) = None \<or> Some (1 :: int) = None" by simp
  have 2: "resolves example_store None (Some 1)"
    by (simp add: resolves_def project_ids_def example_store_def Kickoff_def)
  from 2 null_key_create_accepted [OF 1 2, of None None None] show ?thesis by blast
qed

section \<open>Removing from a collection\<close>

lemma project_match:
  assumes "p \<in> set (project_ids s)"
  shows "(Assignment_project s a = get_project s p) = (project_id a = Some p)"
proof -
  from assms obtain P where P: "get_project s p = Some P" "Project_id P = p"
    using get_project_mem by blast
  show ?thesis
  proof (cases "project_id a")
    case None
    with P show ?thesis by (simp add: Assignment_project_def)
  next
    case (Some q)
    with P show ?thesis
      by (auto simp: Assignment_project_def dest: get_project_Some)
  qed
qed

lemma employee_match:
  assumes "k \<in> set (employee_ids s)"
  shows "(Assignment_employee s a = get_employee s k) = (employee_id a = Some k)"
proof -
  from assms obtain E where E: "get_employee s k = Some E" "Employee_id E = k"
    using get_employee_mem by blast
  show ?thesis
  proof (cases "employee_id a")
    case None
    with E show ?thesis by (simp add: Assignment_employee_def)
  next
    case (Some q)
    with E show ?thesis
      by (auto simp: Assignment_employee_def dest: get_employee_Some)
  qed
qed

text \<open>
  C9. When an assignment links employee \<open>k\<close> and project \<open>p\<close>, removing \<open>p\<close> from the
  \<open>projects\<close> of \<open>k\<close>, removing \<open>k\<close> from the \<open>employees\<close> of \<open>p\<close>, and removing the
  assignment from \<open>Employee.assignments\<close> or from \<open>Project.assignments\<close> all succeed and
  delete the row: the table afterwards is the table before without the rows that carry the
  removed identifier, and no remaining row is changed.
\<close>

theorem remove_deletes_orphan:
  assumes "k \<in> set (employee_ids s)" and "p \<in> set (project_ids s)"
    and "a \<in> set (assignments s)" and "employee_id a = Some k" and "project_id a = Some p"
  shows "(\<exists>x. x \<in> set (assignments s) \<and> employee_id x = Some k \<and> project_id x = Some p \<and>
            Employee_projects_remove s k p =
              Inr (s\<lparr>assignments :=
                filter (\<lambda>y. Assignment_id y \<noteq> Assignment_id x) (assignments s)\<rparr>)) \<and>
         (\<exists>x. x \<in> set (assignments s) \<and> employee_id x = Some k \<and> project_id x = Some p \<and>
            Project_employees_remove s p k =
              Inr (s\<lparr>assignments :=
                filter (\<lambda>y. Assignment_id y \<noteq> Assignment_id x) (assignments s)\<rparr>)) \<and>
         Employee_assignments_remove s k (Assignment_id a) =
           Inr (s\<lparr>assignments :=
             filter (\<lambda>y. Assignment_id y \<noteq> Assignment_id a) (assignments s)\<rparr>) \<and>
         Project_assignments_remove s p (Assignment_id a) =
           Inr (s\<lparr>assignments :=
             filter (\<lambda>y. Assignment_id y \<noteq> Assignment_id a) (assignments s)\<rparr>) \<and>
         Assignment_id a \<notin> set (map Assignment_id
           (filter (\<lambda>y. Assignment_id y \<noteq> Assignment_id a) (assignments s)))"
proof -
  have rm_e: "Employee_assignments_remove s k (Assignment_id x) =
      Inr (s\<lparr>assignments := filter (\<lambda>y. Assignment_id y \<noteq> Assignment_id x) (assignments s)\<rparr>)"
    if "x \<in> set (assignments s)" "employee_id x = Some k" for x
    using that assms(1)
    by (auto simp: Employee_assignments_remove_def Employee_assignments_def
        on_collection_remove_def schema_simps)
  have rm_p: "Project_assignments_remove s p (Assignment_id x) =
      Inr (s\<lparr>assignments := filter (\<lambda>y. Assignment_id y \<noteq> Assignment_id x) (assignments s)\<rparr>)"
    if "x \<in> set (assignments s)" "project_id x = Some p" for x
    using that assms(2)
    by (auto simp: Project_assignments_remove_def Project_assignments_def
        on_collection_remove_def schema_simps)
  have "a \<in> set (Employee_assignments s k)"
    using assms(3,4) by (simp add: Employee_assignments_def)
  then have "find (\<lambda>a. project_id a = Some p) (Employee_assignments s k) \<noteq> None"
    using assms(5) by (auto simp: find_None_iff)
  then obtain x where x: "find (\<lambda>a. project_id a = Some p) (Employee_assignments s k) = Some x"
    by blast
  then have xin: "x \<in> set (assignments s)" "employee_id x = Some k" "project_id x = Some p"
    by (auto simp: find_Some_iff Employee_assignments_def dest: nth_mem)
  have 1: "Employee_projects_remove s k p =
      Inr (s\<lparr>assignments := filter (\<lambda>y. Assignment_id y \<noteq> Assignment_id x) (assignments s)\<rparr>)"
    using x xin assms(1,2) by (simp add: Employee_projects_remove_def project_match rm_e)
  have "a \<in> set (Project_assignments s p)"
    using assms(3,5) by (simp add: Project_assignments_def)
  then have "find (\<lambda>a. employee_id a = Some k) (Project_assignments s p) \<noteq> None"
    using assms(4) by (auto simp: find_None_iff)
  then obtain y where y: "find (\<lambda>a. employee_id a = Some k) (Project_assignments s p) = Some y"
    by blast
  then have yin: "y \<in> set (assignments s)" "employee_id y = Some k" "project_id y = Some p"
    by (auto simp: find_Some_iff Project_assignments_def dest: nth_mem)
  have 2: "Project_employees_remove s p k =
      Inr (s\<lparr>assignments := filter (\<lambda>z. Assignment_id z \<noteq> Assignment_id y) (assignments s)\<rparr>)"
    using y yin assms(1,2) by (simp add: Project_employees_remove_def employee_match rm_p)
  have 3: "Assignment_id a \<notin> set (map Assignment_id
      (filter (\<lambda>y. Assignment_id y \<noteq> Assignment_id a) (assignments s)))"
    by auto
  from 1 2 3 xin yin rm_e [OF assms(3,4)] rm_p [OF assms(3,5)] show ?thesis by blast
qed

theorem remove_deletes_orphan_witness:
  "1 \<in> set (employee_ids linked_store) \<and> 1 \<in> set (project_ids linked_store) \<and>
   assignments linked_store =
     [\<lparr>Assignment_id = 1, role = None, start_date = None, end_date = None,
       employee_id = Some 1, project_id = Some 1\<rparr>] \<and>
   Employee_projects_remove linked_store 1 1 = Inr (linked_store\<lparr>assignments := []\<rparr>) \<and>
   Project_employees_remove linked_store 1 1 = Inr (linked_store\<lparr>assignments := []\<rparr>) \<and>
   Employee_assignments_remove linked_store 1 1 = Inr (linked_store\<lparr>assignments := []\<rparr>) \<and>
   Project_assignments_remove linked_store 1 1 = Inr (linked_store\<lparr>assignments := []\<rparr>)"
proof -
  let ?a = "\<lparr>Assignment_id = 1, role = None, start_date = None, end_date = None,
    employee_id = Some 1, project_id = Some 1\<rparr>"
  have E: "1 \<in> set (employee_ids linked_store)"
    by (simp add: employee_ids_def linked_store_def example_store_def John_Doe_def)
  have P: "1 \<in> set (project_ids linked_store)"
    by (simp add: project_ids_def linked_store_def example_store_def Kickoff_def)
  have A: "assignments linked_store = [?a]" by (simp add: linked_store_def)
  have M: "?a \<in> set (assignments linked_store)" by (simp add: A)
  have "employee_id ?a = Some 1" "project_id ?a = Some 1" by simp_all
  from remove_deletes_orphan [OF E P M this] E P A show ?thesis
    by auto
qed

section \<open>Invariants of the reachable stores\<close>

lemma resolves_iff:
  "resolves s k p \<longleftrightarrow>
     (\<forall>i. k = Some i \<longrightarrow> i \<in> set (employee_ids s)) \<and>
     (\<forall>i. p = Some i \<longrightarrow> i \<in> set (project_ids s))"
  by (auto simp: resolves_def)

lemma employee_ids_update:
  "map Employee_id (map (\<lambda>e. if Employee_id e = k then e\<lparr>name := n, hire_date := h\<rparr> else e) xs)
     = map Employee_id xs"
  by (induction xs) auto

lemma project_ids_update:
  "map Project_id (map (\<lambda>p. if Project_id p = k then p\<lparr>title := t, budget := b\<rparr> else p) xs)
     = map Project_id xs"
  by (induction xs) auto

lemma ids_filter: "f ` {x \<in> set xs. f x \<noteq> k} = f ` set xs - {k}"
  by auto

lemma insert_assignment_inv:
  assumes "\<forall>a\<in>set (assignments s). resolves s (employee_id a) (project_id a)"
    and "resolves s (employee t) (project t)"
    and "insert_assignment s t = Inr s'"
  shows "\<forall>a\<in>set (assignments s'). resolves s' (employee_id a) (project_id a)"
  using assms
  by (auto simp: insert_assignment_ok resolves_iff employee_ids_def project_ids_def)

lemma get_project_resolves:
  "set_option (map_option Project_id (get_project s p)) \<subseteq> set (project_ids s)"
  by (cases "get_project s p") (auto simp: project_ids_def dest: get_project_Some)

lemma get_employee_resolves:
  "set_option (map_option Employee_id (get_employee s k)) \<subseteq> set (employee_ids s)"
  by (cases "get_employee s k") (auto simp: employee_ids_def dest: get_employee_Some)

lemma Employee_projects_append_inv:
  assumes "\<forall>a\<in>set (assignments s). resolves s (employee_id a) (project_id a)"
    and "Employee_projects_append s k p = Inr s'"
  shows "\<forall>a\<in>set (assignments s'). resolves s' (employee_id a) (project_id a)"
proof -
  from assms(2) obtain E where E: "get_employee s k = Some E"
    and ins: "insert_assignment s
      ((Employee_projects_creator (get_project s p))\<lparr>employee := Some (Employee_id E)\<rparr>) = Inr s'"
    by (auto simp: Employee_projects_append_def split: option.splits)
  from E have "Employee_id E \<in> set (employee_ids s)"
    by (auto simp: employee_ids_def dest: get_employee_Some)
  then have "resolves s
      (employee ((Employee_projects_creator (get_project s p))\<lparr>employee := Some (Employee_id E)\<rparr>))
      (project ((Employee_projects_creator (get_project s p))\<lparr>employee := Some (Employee_id E)\<rparr>))"
    using get_project_resolves [of s p]
    by (simp add: resolves_def Employee_projects_creator_def Assignment_new_def)
  from insert_assignment_inv [OF assms(1) this ins] show ?thesis .
qed

lemma Project_employees_append_inv:
  assumes "\<forall>a\<in>set (assignments s). resolves s (employee_id a) (project_id a)"
    and "Project_employees_append s p k = Inr s'"
  shows "\<forall>a\<in>set (assignments s'). resolves s' (employee_id a) (project_id a)"
proof -
  from assms(2) obtain P where P: "get_project s p = Some P"
    and ins: "insert_assignment s
      ((Project_employees_creator (get_employee s k))\<lparr>project := Some (Project_id P)\<rparr>) = Inr s'"
    by (auto simp: Project_employees_append_def split: option.splits)
  from P have "Project_id P \<in> set (project_ids s)"
    by (auto simp: project_ids_def dest: get_project_Some)
  then have "resolves s
      (employee ((Project_employees_creator (get_employee s k))\<lparr>project := Some (Project_id P)\<rparr>))
      (project ((Project_employees_creator (get_employee s k))\<lparr>project := Some (Project_id P)\<rparr>))"
    using get_employee_resolves [of s k]
    by (simp add: resolves_def Project_employees_creator_def Assignment_new_def)
  from insert_assignment_inv [OF assms(1) this ins] show ?thesis .
qed

lemma delete_employee_inv:
  assumes "\<forall>a\<in>set (assignments s). resolves s (employee_id a) (project_id a)" and "delete_employee s k = Inr s'"
  shows "\<forall>a\<in>set (assignments s'). resolves s' (employee_id a) (project_id a)"
  using assms
  by (auto simp: delete_employee_def on_parent_delete_def schema_simps
      resolves_iff employee_ids_def project_ids_def ids_filter split: if_splits)

lemma delete_project_inv:
  assumes "\<forall>a\<in>set (assignments s). resolves s (employee_id a) (project_id a)" and "delete_project s k = Inr s'"
  shows "\<forall>a\<in>set (assignments s'). resolves s' (employee_id a) (project_id a)"
  using assms
  by (auto simp: delete_project_def on_parent_delete_def schema_simps
      resolves_iff employee_ids_def project_ids_def ids_filter split: if_splits)

lemma Employee_assignments_remove_inv:
  assumes "\<forall>a\<in>set (assignments s). resolves s (employee_id a) (project_id a)"
    and "Employee_assignments_remove s k x = Inr s'"
  shows "\<forall>a\<in>set (assignments s'). resolves s' (employee_id a) (project_id a)"
  using assms
  by (auto simp: Employee_assignments_remove_def on_collection_remove_def schema_simps
      resolves_iff employee_ids_def project_ids_def split: if_splits)

lemma Project_assignments_remove_inv:
  assumes "\<forall>a\<in>set (assignments s). resolves s (employee_id a) (project_id a)"
    and "Project_assignments_remove s k x = Inr s'"
  shows "\<forall>a\<in>set (assignments s'). resolves s' (employee_id a) (project_id a)"
  using assms
  by (auto simp: Project_assignments_remove_def on_collection_remove_def schema_simps
      resolves_iff employee_ids_def project_ids_def split: if_splits)

lemma secondary_frame:
  "secondary_append r s row = Inr s' \<Longrightarrow>
     employee_ids s' = employee_ids s \<and> project_ids s' = project_ids s \<and>
     assignments s' = assignments s"
  "secondary_remove r s row = Inr s' \<Longrightarrow>
     employee_ids s' = employee_ids s \<and> project_ids s' = project_ids s \<and>
     assignments s' = assignments s"
  by (auto simp: secondary_append_def secondary_remove_def insert_employees_meetings_def
      employee_ids_def project_ids_def split: option.splits if_splits)

lemma inv_frame:
  assumes "\<forall>a\<in>set (assignments s). resolves s (employee_id a) (project_id a)"
    and "employee_ids s' = employee_ids s \<and> project_ids s' = project_ids s \<and>
      assignments s' = assignments s"
  shows "\<forall>a\<in>set (assignments s'). resolves s' (employee_id a) (project_id a)"
  using assms by (simp add: resolves_def)

lemma update_employee_frame:
  assumes "update_employee s k n h = Inr s'"
  shows "employee_ids s' = employee_ids s \<and> project_ids s' = project_ids s \<and>
     assignments s' = assignments s \<and> employees_meetings s' = employees_meetings s"
proof -
  from assms have s': "s' = s\<lparr>employees :=
      map (\<lambda>e. if Employee_id e = k then e\<lparr>name := n, hire_date := h\<rparr> else e)
        (employees s)\<rparr>"
    by (simp add: update_employee_def split: if_splits)
  have "employee_ids s' = employee_ids s"
    unfolding s' employee_ids_def by (simp del: map_map add: employee_ids_update)
  then show ?thesis by (simp add: s' project_ids_def)
qed

lemma update_project_frame:
  assumes "update_project s k t b = Inr s'"
  shows "employee_ids s' = employee_ids s \<and> project_ids s' = project_ids s \<and>
     assignments s' = assignments s \<and> employees_meetings s' = employees_meetings s"
proof -
  from assms have s': "s' = s\<lparr>projects :=
      map (\<lambda>p. if Project_id p = k then p\<lparr>title := t, budget := b\<rparr> else p)
        (projects s)\<rparr>"
    by (simp add: update_project_def split: if_splits)
  have "project_ids s' = project_ids s"
    unfolding s' project_ids_def by (simp del: map_map add: project_ids_update)
  then show ?thesis by (simp add: s' employee_ids_def)
qed

lemma apply_operation_inv:
  assumes "\<forall>a\<in>set (assignments s). resolves s (employee_id a) (project_id a)"
    and "direct_keys_resolve s x" and "apply_operation s x = Inr s'"
  shows "\<forall>a\<in>set (assignments s'). resolves s' (employee_id a) (project_id a)"
proof (cases x)
  case (Create_employee n h)
  with assms show ?thesis
    by (auto simp: create_employee_def resolves_iff employee_ids_def project_ids_def)
next
  case (Create_meeting t w l)
  with assms show ?thesis
    by (auto simp: create_meeting_def resolves_iff employee_ids_def project_ids_def)
next
  case (Create_project t b)
  with assms show ?thesis
    by (auto simp: create_project_def resolves_iff employee_ids_def project_ids_def
        split: if_splits)
next
  case (Create_assignment r b e k p)
  with assms have "resolves s k p"
    and "insert_assignment s \<lparr>new_role = r, new_start_date = b, new_end_date = e,
      employee = k, project = p\<rparr> = Inr s'"
    by (simp_all add: create_assignment_def)
  with insert_assignment_inv [OF assms(1), of "\<lparr>new_role = r, new_start_date = b,
      new_end_date = e, employee = k, project = p\<rparr>" s']
  show ?thesis by simp
next
  case (Insert_employees_meetings k m)
  with assms show ?thesis
    by (auto simp: insert_employees_meetings_def resolves_iff employee_ids_def
        project_ids_def split: if_splits)
next
  case (Update_employee k n h)
  with assms(3) have "update_employee s k n h = Inr s'" by simp
  from inv_frame [OF assms(1)] update_employee_frame [OF this] show ?thesis by blast
next
  case (Update_meeting k t w l)
  with assms show ?thesis
    by (auto simp: update_meeting_def resolves_iff employee_ids_def project_ids_def
        split: if_splits)
next
  case (Update_project k t b)
  with assms(3) have "update_project s k t b = Inr s'" by simp
  from inv_frame [OF assms(1)] update_project_frame [OF this] show ?thesis by blast
next
  case (Update_assignment k r b e ek pk)
  with assms show ?thesis
    by (auto simp: update_assignment_def Let_def resolves_iff employee_ids_def
        project_ids_def split: if_splits)
next
  case (Delete_employee k)
  with assms show ?thesis using delete_employee_inv by simp
next
  case (Delete_meeting k)
  with assms show ?thesis
    by (auto simp: delete_meeting_def Let_def resolves_iff employee_ids_def
        project_ids_def split: if_splits)
next
  case (Delete_project k)
  with assms show ?thesis using delete_project_inv by simp
next
  case (Delete_assignment k)
  with assms show ?thesis
    by (auto simp: delete_assignment_def resolves_iff employee_ids_def project_ids_def
        split: if_splits)
next
  case (Append_Employee_projects k p)
  with assms show ?thesis using Employee_projects_append_inv by simp
next
  case (Append_Project_employees p k)
  with assms show ?thesis using Project_employees_append_inv by simp
next
  case (Append_Employee_meetings k m)
  with assms(3) have "secondary_append Employee_meetings_rel s (k, m) = Inr s'"
    by (simp add: Employee_meetings_append_def split: if_splits)
  from inv_frame [OF assms(1)] secondary_frame this show ?thesis by blast
next
  case (Append_Meeting_employees m k)
  with assms(3) have "secondary_append Meeting_employees_rel s (k, m) = Inr s'"
    by (simp add: Meeting_employees_append_def split: if_splits)
  from inv_frame [OF assms(1)] secondary_frame this show ?thesis by blast
next
  case (Remove_Employee_assignments k a)
  with assms show ?thesis using Employee_assignments_remove_inv by simp
next
  case (Remove_Project_assignments k a)
  with assms show ?thesis using Project_assignments_remove_inv by simp
next
  case (Remove_Employee_projects k p)
  with assms show ?thesis
    using Employee_assignments_remove_inv
    by (auto simp: Employee_projects_remove_def split: if_splits option.splits)
next
  case (Remove_Project_employees p k)
  with assms show ?thesis
    using Project_assignments_remove_inv
    by (auto simp: Project_employees_remove_def split: if_splits option.splits)
next
  case (Remove_Employee_meetings k m)
  with assms(3) have "secondary_remove Employee_meetings_rel s (k, m) = Inr s'"
    by (simp add: Employee_meetings_remove_def split: if_splits)
  from inv_frame [OF assms(1)] secondary_frame this show ?thesis by blast
next
  case (Remove_Meeting_employees m k)
  with assms(3) have "secondary_remove Meeting_employees_rel s (k, m) = Inr s'"
    by (simp add: Meeting_employees_remove_def split: if_splits)
  from inv_frame [OF assms(1)] secondary_frame this show ?thesis by blast
qed


lemma commit_inv:
  assumes "\<forall>a\<in>set (assignments s). resolves s (employee_id a) (project_id a)"
    and "direct_keys_resolve s x"
  shows "\<forall>a\<in>set (assignments (commit s x)).
           resolves (commit s x) (employee_id a) (project_id a)"
proof (cases "apply_operation s x")
  case (Inl e)
  with assms show ?thesis by (simp add: commit_def)
next
  case (Inr s')
  with apply_operation_inv [OF assms Inr] show ?thesis by (simp add: commit_def)
qed

lemma reachable_resolving_inv:
  "reachable_resolving s \<Longrightarrow>
     \<forall>a\<in>set (assignments s). resolves s (employee_id a) (project_id a)"
proof (induction rule: reachable_resolving.induct)
  case resolving_empty
  show ?case by (simp add: empty_store_def)
next
  case (resolving_commit s x)
  then show ?case by (intro commit_inv)
qed

lemma reachable_fold:
  "reachable s \<Longrightarrow> reachable (fold (\<lambda>x s. commit s x) xs s)"
  by (induction xs arbitrary: s) (simp_all add: reachable_commit)

lemma reachable_run: "reachable (run xs)"
  unfolding run_def by (rule reachable_fold) (rule reachable_empty)

lemma run_example_history: "run example_history = example_store"
  by (simp add: run_def example_history_def commit_def create_employee_def create_meeting_def
      create_project_def integer_ok_def empty_store_def example_store_def John_Doe_def
      Standup_def Kickoff_def next_id_def employee_ids_def meeting_ids_def project_ids_def)

lemma reachable_example_store: "reachable example_store"
  using reachable_run [of example_history] by (simp add: run_example_history)

lemma run_linked_history: "run linked_history = linked_store"
proof -
  have "run linked_history =
      commit (commit example_store (Append_Employee_projects 1 1)) (Append_Employee_meetings 1 1)"
    using run_example_history by (simp add: run_def linked_history_def)
  also have "commit example_store (Append_Employee_projects 1 1) =
      example_store\<lparr>assignments := [\<lparr>Assignment_id = 1, role = None, start_date = None,
        end_date = None, employee_id = Some 1, project_id = Some 1\<rparr>]\<rparr>"
    by (simp add: commit_def Employee_projects_append_eq employee_ids_def project_ids_def
        assignment_ids_def next_id_def example_store_def John_Doe_def Kickoff_def)
  also have "commit \<dots> (Append_Employee_meetings 1 1) = linked_store"
    by (simp add: commit_def Employee_meetings_append_def secondary_append_def
        insert_employees_meetings_def employees_meetings_ok_def schema_simps
        employee_ids_def meeting_ids_def linked_store_def example_store_def John_Doe_def
        Standup_def)
  finally show ?thesis .
qed

lemma resolving_fold:
  "reachable_resolving s \<Longrightarrow> \<forall>x\<in>set xs. \<forall>s. direct_keys_resolve s x \<Longrightarrow>
     reachable_resolving (fold (\<lambda>x s. commit s x) xs s)"
  by (induction xs arbitrary: s) (simp_all add: resolving_commit)

lemma resolving_linked_store: "reachable_resolving linked_store"
proof -
  have "\<forall>x\<in>set linked_history. \<forall>s. direct_keys_resolve s x"
    by (simp add: linked_history_def example_history_def)
  with resolving_empty have "reachable_resolving (run linked_history)"
    unfolding run_def by (rule resolving_fold)
  then show ?thesis by (simp add: run_linked_history)
qed

text \<open>
  C3. A reachable store can hold assignments whose references do not resolve: on the empty
  store, creating an assignment with both foreign keys NULL and then one with
  \<open>employee_id\<close> 7 stores both rows, and the store has no employee and no project.
\<close>

theorem unreferenced_assignment_counterexample:
  "reachable (commit (commit empty_store (Create_assignment None None None None None))
     (Create_assignment None None None (Some 7) None)) \<and>
   assignments (commit (commit empty_store (Create_assignment None None None None None))
     (Create_assignment None None None (Some 7) None)) =
     [\<lparr>Assignment_id = 1, role = None, start_date = None, end_date = None,
       employee_id = None, project_id = None\<rparr>,
      \<lparr>Assignment_id = 2, role = None, start_date = None, end_date = None,
       employee_id = Some 7, project_id = None\<rparr>] \<and>
   employee_ids (commit (commit empty_store (Create_assignment None None None None None))
     (Create_assignment None None None (Some 7) None)) = [] \<and>
   project_ids (commit (commit empty_store (Create_assignment None None None None None))
     (Create_assignment None None None (Some 7) None)) = []"
proof -
  have "reachable (commit (commit empty_store (Create_assignment None None None None None))
      (Create_assignment None None None (Some 7) None))"
    by (intro reachable_commit reachable_empty)
  then show ?thesis
    by (simp add: create_assignment_def insert_assignment_ok commit_def employee_ids_def
        project_ids_def assignment_ids_def next_id_def empty_store_def)
qed

text \<open>
  C3, amended. In every store reached by operations that write to the foreign keys of an
  assignment, when they write them directly (create and update), only NULL or the
  identifier of an existing row, the \<open>employee_id\<close> of each assignment is NULL or the
  identifier of an employee of the store, and its \<open>project_id\<close> is NULL or the
  identifier of a project of the store. Appending to and removing from the views and the
  collections, and deleting an employee, a project, a meeting or an assignment, never leave
  a reference that does not resolve. (What a direct write of a key that matches no row
  does to the store is left open here.)
\<close>

theorem referential_integrity_reachable:
  assumes "reachable_resolving s"
  shows "\<forall>a\<in>set (assignments s).
           set_option (employee_id a) \<subseteq> set (employee_ids s) \<and>
           set_option (project_id a) \<subseteq> set (project_ids s)"
proof
  fix a assume "a \<in> set (assignments s)"
  with reachable_resolving_inv [OF assms]
  have "resolves s (employee_id a) (project_id a)" by blast
  then show "set_option (employee_id a) \<subseteq> set (employee_ids s) \<and>
      set_option (project_id a) \<subseteq> set (project_ids s)"
    by (simp add: resolves_def)
qed

theorem referential_integrity_reachable_witness:
  "reachable_resolving
     (commit linked_store (Create_assignment (Some ''lead'') None None (Some 1) None)) \<and>
   map employee_id (assignments
     (commit linked_store (Create_assignment (Some ''lead'') None None (Some 1) None))) =
     [Some 1, Some 1] \<and>
   map project_id (assignments
     (commit linked_store (Create_assignment (Some ''lead'') None None (Some 1) None))) =
     [Some 1, None] \<and>
   list_all (\<lambda>a.
       set_option (employee_id a) \<subseteq> set (employee_ids
         (commit linked_store (Create_assignment (Some ''lead'') None None (Some 1) None))) \<and>
       set_option (project_id a) \<subseteq> set (project_ids
         (commit linked_store (Create_assignment (Some ''lead'') None None (Some 1) None))))
     (assignments
       (commit linked_store (Create_assignment (Some ''lead'') None None (Some 1) None)))"
proof -
  let ?s = "commit linked_store (Create_assignment (Some ''lead'') None None (Some 1) None)"
  have "direct_keys_resolve linked_store
      (Create_assignment (Some ''lead'') None None (Some 1) None)"
    by (simp add: resolves_def employee_ids_def linked_store_def example_store_def
        John_Doe_def)
  with resolving_linked_store have R: "reachable_resolving ?s" by (rule resolving_commit)
  have A: "map employee_id (assignments ?s) = [Some 1, Some 1]"
    "map project_id (assignments ?s) = [Some 1, None]"
    by (simp_all add: commit_def create_assignment_def insert_assignment_ok linked_store_def)
  from A R referential_integrity_reachable [OF R] show ?thesis
    by (simp add: list_all_iff)
qed

lemma apply_operation_distinct:
  assumes "distinct (employees_meetings s)" and "apply_operation s x = Inr s'"
  shows "distinct (employees_meetings s')"
proof (cases x)
  case (Create_employee n h)
  with assms show ?thesis by (auto simp: create_employee_def)
next
  case (Create_meeting t w l)
  with assms show ?thesis by (auto simp: create_meeting_def)
next
  case (Create_project t b)
  with assms show ?thesis by (auto simp: create_project_def split: if_splits)
next
  case (Create_assignment r b e k p)
  with assms show ?thesis
    by (auto simp: create_assignment_def insert_assignment_def Let_def split: if_splits)
next
  case (Insert_employees_meetings k m)
  with assms show ?thesis
    by (auto simp: insert_employees_meetings_def employees_meetings_ok_def schema_simps
        split: if_splits)
next
  case (Update_employee k n h)
  with assms show ?thesis by (auto dest!: update_employee_frame)
next
  case (Update_meeting k t w l)
  with assms show ?thesis by (auto simp: update_meeting_def split: if_splits)
next
  case (Update_project k t b)
  with assms show ?thesis by (auto dest!: update_project_frame)
next
  case (Update_assignment k r b e ek pk)
  with assms show ?thesis by (auto simp: update_assignment_def Let_def split: if_splits)
next
  case (Delete_employee k)
  with assms show ?thesis
    by (auto simp: delete_employee_def on_parent_delete_def on_parent_delete_secondary_def
        schema_simps split: if_splits)
next
  case (Delete_meeting k)
  with assms show ?thesis
    by (auto simp: delete_meeting_def on_parent_delete_secondary_def schema_simps
        split: if_splits)
next
  case (Delete_project k)
  with assms show ?thesis
    by (auto simp: delete_project_def on_parent_delete_def schema_simps split: if_splits)
next
  case (Delete_assignment k)
  with assms show ?thesis by (auto simp: delete_assignment_def split: if_splits)
next
  case (Append_Employee_projects k p)
  with assms show ?thesis
    by (auto simp: Employee_projects_append_def insert_assignment_def Let_def
        split: option.splits if_splits)
next
  case (Append_Project_employees p k)
  with assms show ?thesis
    by (auto simp: Project_employees_append_def insert_assignment_def Let_def
        split: option.splits if_splits)
next
  case (Append_Employee_meetings k m)
  with assms show ?thesis
    by (auto simp: Employee_meetings_append_def secondary_append_def
        insert_employees_meetings_def employees_meetings_ok_def schema_simps
        split: if_splits)
next
  case (Append_Meeting_employees m k)
  with assms show ?thesis
    by (auto simp: Meeting_employees_append_def secondary_append_def
        insert_employees_meetings_def employees_meetings_ok_def schema_simps
        split: if_splits)
next
  case (Remove_Employee_assignments k a)
  with assms show ?thesis
    by (auto simp: Employee_assignments_remove_def on_collection_remove_def schema_simps
        split: if_splits)
next
  case (Remove_Project_assignments k a)
  with assms show ?thesis
    by (auto simp: Project_assignments_remove_def on_collection_remove_def schema_simps
        split: if_splits)
next
  case (Remove_Employee_projects k p)
  with assms show ?thesis
    by (auto simp: Employee_projects_remove_def Employee_assignments_remove_def
        on_collection_remove_def schema_simps split: if_splits option.splits)
next
  case (Remove_Project_employees p k)
  with assms show ?thesis
    by (auto simp: Project_employees_remove_def Project_assignments_remove_def
        on_collection_remove_def schema_simps split: if_splits option.splits)
next
  case (Remove_Employee_meetings k m)
  with assms show ?thesis
    by (auto simp: Employee_meetings_remove_def secondary_remove_def schema_simps
        split: if_splits)
next
  case (Remove_Meeting_employees m k)
  with assms show ?thesis
    by (auto simp: Meeting_employees_remove_def secondary_remove_def schema_simps
        split: if_splits)
qed

lemma reachable_distinct: "reachable s \<Longrightarrow> distinct (employees_meetings s)"
proof (induction rule: reachable.induct)
  case reachable_empty
  show ?case by (simp add: empty_store_def)
next
  case (reachable_commit s x)
  then show ?case
    by (cases "apply_operation s x") (simp_all add: commit_def apply_operation_distinct)
qed

text \<open>
  C8. In every reachable store no pair occurs twice in \<open>employees_meetings\<close>; and when
  the employee and the meeting exist and their pair is not in the table, appending the
  meeting to the employee's \<open>meetings\<close>, or the employee to the meeting's \<open>employees\<close>,
  adds the pair at the end of the table, where it then occurs once.
\<close>

theorem employees_meetings_unique:
  assumes "reachable s"
  shows "distinct (employees_meetings s) \<and>
    (k \<in> set (employee_ids s) \<and> m \<in> set (meeting_ids s) \<and>
       (k, m) \<notin> set (employees_meetings s) \<longrightarrow>
     Employee_meetings_append s k m =
       Inr (s\<lparr>employees_meetings := employees_meetings s @ [(k, m)]\<rparr>) \<and>
     Meeting_employees_append s m k =
       Inr (s\<lparr>employees_meetings := employees_meetings s @ [(k, m)]\<rparr>) \<and>
     count_list (employees_meetings s @ [(k, m)]) (k, m) = 1)"
proof (intro conjI impI)
  show "distinct (employees_meetings s)" using assms by (rule reachable_distinct)
next
  assume h: "k \<in> set (employee_ids s) \<and> m \<in> set (meeting_ids s) \<and>
    (k, m) \<notin> set (employees_meetings s)"
  then show "Employee_meetings_append s k m =
      Inr (s\<lparr>employees_meetings := employees_meetings s @ [(k, m)]\<rparr>)"
    by (simp add: Employee_meetings_append_def secondary_append_def
        insert_employees_meetings_def employees_meetings_ok_def schema_simps)
  from h show "Meeting_employees_append s m k =
      Inr (s\<lparr>employees_meetings := employees_meetings s @ [(k, m)]\<rparr>)"
    by (simp add: Meeting_employees_append_def secondary_append_def
        insert_employees_meetings_def employees_meetings_ok_def schema_simps)
  from h show "count_list (employees_meetings s @ [(k, m)]) (k, m) = 1"
    by (simp add: count_list_0_iff)
qed

theorem employees_meetings_unique_witness:
  "reachable example_store \<and> distinct (employees_meetings example_store) \<and>
   1 \<in> set (employee_ids example_store) \<and> 1 \<in> set (meeting_ids example_store) \<and>
   (1, 1) \<notin> set (employees_meetings example_store) \<and>
   Employee_meetings_append example_store 1 1 =
     Inr (example_store\<lparr>employees_meetings := employees_meetings example_store @ [(1, 1)]\<rparr>) \<and>
   Meeting_employees_append example_store 1 1 =
     Inr (example_store\<lparr>employees_meetings := employees_meetings example_store @ [(1, 1)]\<rparr>) \<and>
   count_list (employees_meetings example_store @ [(1, 1)]) (1, 1) = 1"
proof -
  have E: "1 \<in> set (employee_ids example_store)"
    by (simp add: employee_ids_def example_store_def John_Doe_def)
  have M: "1 \<in> set (meeting_ids example_store)"
    by (simp add: meeting_ids_def example_store_def Standup_def)
  have N: "(1, 1) \<notin> set (employees_meetings example_store)"
    by (simp add: example_store_def)
  from E M N employees_meetings_unique [OF reachable_example_store, of 1 1]
    reachable_example_store
  show ?thesis by blast
qed

end
